theory Spec2Isabelle
  imports Main "HOL-Library.Word"
begin

unbundle bit_operations_syntax

section \<open>autorandr\_launcher: the data\<close>

text \<open>
  The program is \<^verbatim>\<open>contrib/autorandr_launcher/autorandr_launcher.c\<close>: it parses four
  options, optionally daemonizes, connects to the X server, subscribes to RandR
  screen-change events and then loops on \<^verbatim>\<open>xcb_wait_for_event\<close>, launching
  \<^verbatim>\<open>/usr/bin/autorandr\<close> when an event passes the debounce test.

  \<^verbatim>\<open>xcb_timestamp_t\<close> is \<^verbatim>\<open>uint32_t\<close>: a 32-bit word, compared unsigned.
  \<^verbatim>\<open>time_t\<close> counts whole seconds; it is modelled as an unbounded integer
  (\<^verbatim>\<open>last_time + 1\<close> cannot overflow a 64-bit \<^verbatim>\<open>time_t\<close> for any clock value
  \<^verbatim>\<open>time(NULL)\<close> returns).
\<close>

type_synonym xcb_timestamp_t = "32 word"
type_synonym time_t = int

text \<open>
  An event as the loop reads it. \<open>response_type\<close> is the first byte of
  \<^verbatim>\<open>xcb_generic_event_t\<close>; \<open>timestamp\<close> is the 32-bit word at byte offset 4, which is
  what \<^verbatim>\<open>randr_evt->timestamp\<close> reads after the cast of line 154 to
  \<^verbatim>\<open>xcb_randr_screen_change_notify_event_t *\<close>, whatever the event is.
\<close>

record xcb_generic_event_t =
  response_type :: "8 word"
  timestamp :: xcb_timestamp_t

text \<open>
  \<^verbatim>\<open>XCB_RANDR_NOTIFY_MASK_SCREEN_CHANGE\<close> comes from libxcb's \<^verbatim>\<open>xcb/randr.h\<close>
  (\<^verbatim>\<open>enum xcb_randr_notify_mask_t\<close>), where it is 1: the bit that
  \<^verbatim>\<open>xcb_randr_select_input\<close> takes to select screen-change events.
\<close>

definition XCB_RANDR_NOTIFY_MASK_SCREEN_CHANGE :: int where
  "XCB_RANDR_NOTIFY_MASK_SCREEN_CHANGE = 1"

subsection \<open>Options\<close>

text \<open>
  The four \<^verbatim>\<open>int\<close> flags: the locals \<^verbatim>\<open>help\<close>, \<^verbatim>\<open>version\<close> and
  \<^verbatim>\<open>daemonize\<close> of \<^verbatim>\<open>main\<close> (with a suffix, since \<^verbatim>\<open>help\<close> is a reserved word of
  Isabelle) and the file's global \<^verbatim>\<open>VERBOSE\<close>. What \<^verbatim>\<open>getopt_long\<close> found on the
  command line is a list of hits, in order, up to the \<^verbatim>\<open>-1\<close> that ends the
  \<^verbatim>\<open>while (ch != -1)\<close> loop.
\<close>

record flags =
  help_flag :: int
  version_flag :: int
  daemonize_flag :: int
  VERBOSE :: int

datatype option_hit =
    Short_h
  | Short_d
  | Long_help
  | Long_daemonize
  | Long_version
  | Long_verbose
  | Unrecognized

subsection \<open>The child process of one launch\<close>

text \<open>
  What the operating system does with one call of \<open>ar_launch\<close>: \<^verbatim>\<open>fork\<close> fails, or
  the child is created and \<^verbatim>\<open>execve\<close> fails (it returns, and the child goes on to
  \<^verbatim>\<open>exit(127)\<close>), or the child becomes the tool and terminates with some status.
  A child that never terminates would leave \<^verbatim>\<open>waitpid(pid, 0, 0)\<close> blocked for ever;
  the model covers the launches whose child terminates.
\<close>

datatype spawn_outcome =
    Fork_failed
  | Exec_failed
  | Tool_terminated int

record child =
  path :: string
  argv :: "string list"
  envp :: "string list"
  exit_status :: int

subsection \<open>Effects and state\<close>

datatype signal = SIGINT | SIGTERM | SIGQUIT | SIGHUP

datatype disposition = Sigterm_handler | Sig_ign

text \<open>
  Every call that reaches outside the function, and the two assignments to the
  debounce variables, in program order. \<open>Ar_launch\<close> carries the child that the call
  created and waited for (\<open>None\<close> when \<^verbatim>\<open>fork\<close> failed).
\<close>

datatype effect =
    Stdout string
  | Stderr string
  | Sigaction signal disposition
  | Daemon int int
  | Xcb_connect
  | Xcb_randr_select_input "32 word" int
  | Xcb_flush
  | Xcb_wait_for_event "xcb_generic_event_t option"
  | Ar_launch "child option"
  | Assign_last_time time_t
  | Assign_last_timestamp xcb_timestamp_t

text \<open>
  The state of the process: what \<^verbatim>\<open>daemon\<close> changes (working directory, standard
  streams, detachment), the two locals of \<^verbatim>\<open>main\<close> that live across loop iterations
  (declared at lines 137 and 138; the fields hold their values from there on), and the
  trace of effects so far.
\<close>

record state =
  cwd :: string
  stdio_null :: bool
  detached :: bool
  last_timestamp :: xcb_timestamp_t
  last_time :: time_t
  trace :: "effect list"

text \<open>
  Everything \<^verbatim>\<open>main\<close> obtains from outside: the option hits, \<^verbatim>\<open>environ\<close>, the working
  directory at start, the value of \<^verbatim>\<open>xcb_connection_has_error\<close>, the root window of
  the default screen (lines 122 to 129 walk the server's setup to it), the clock at line
  138, the outcome of the n-th launch, and the sequence of values that
  \<^verbatim>\<open>xcb_wait_for_event\<close> returns, each with the value \<^verbatim>\<open>time(NULL)\<close> has when the
  event is handled (\<open>None\<close> is the null event). When the sequence is used up the process
  is blocked in \<^verbatim>\<open>xcb_wait_for_event\<close>.
\<close>

record input =
  options :: "option_hit list"
  environ :: "string list"
  cwd0 :: string
  connection_has_error :: int
  root :: "32 word"
  start_time :: time_t
  spawn :: "nat \<Rightarrow> spawn_outcome"
  events :: "(xcb_generic_event_t \<times> time_t) option list"

datatype outcome = Exited int | Blocked

section \<open>The functions\<close>

definition emit :: "effect \<Rightarrow> state \<Rightarrow> state" where
  "emit e \<sigma> = \<sigma>\<lparr>trace := trace \<sigma> @ [e]\<rparr>"

text \<open>\<^verbatim>\<open>ar_log\<close>: nothing unless \<^verbatim>\<open>VERBOSE\<close> is non-zero.\<close>

definition ar_log :: "flags \<Rightarrow> string \<Rightarrow> state \<Rightarrow> state" where
  "ar_log f msg \<sigma> = (if VERBOSE f = 0 then \<sigma> else emit (Stdout msg) \<sigma>)"

subsection \<open>\<^verbatim>\<open>ar_launch\<close>\<close>

definition autorandr_argv :: "string list" where
  "autorandr_argv = [''/usr/bin/autorandr'', ''--change'', ''--default'', ''default'']"

text \<open>
  The child's side of the \<^verbatim>\<open>fork\<close> (line 39 to 43):
  \<^verbatim>\<open>execve(argv[0], argv, environ); exit(127);\<close>. The argument is \<open>None\<close> when
  \<^verbatim>\<open>execve\<close> returns, and the tool's own status when it does not.
\<close>

definition child_main :: "string list \<Rightarrow> int option \<Rightarrow> child" where
  "child_main env tool =
     \<lparr>path = autorandr_argv ! 0, argv = autorandr_argv, envp = env,
      exit_status = (case tool of None \<Rightarrow> 127 | Some s \<Rightarrow> s)\<rparr>"

text \<open>
  The parent's side: \<^verbatim>\<open>waitpid(pid, 0, 0)\<close>, then \<^verbatim>\<open>return 0\<close>. The status pointer is
  null, so the child's status reaches nothing in the parent. When \<^verbatim>\<open>fork\<close> fails,
  \<^verbatim>\<open>pid\<close> is -1, the else branch runs \<^verbatim>\<open>waitpid(-1, 0, 0)\<close> with no child to wait
  for, and the function returns 0 all the same.
\<close>

definition ar_launch :: "string list \<Rightarrow> spawn_outcome \<Rightarrow> int \<times> child option" where
  "ar_launch env oc =
     (case oc of
        Fork_failed \<Rightarrow> (0, None)
      | Exec_failed \<Rightarrow> (0, Some (child_main env None))
      | Tool_terminated s \<Rightarrow> (0, Some (child_main env (Some s))))"

subsection \<open>Option parsing (lines 75 to 89)\<close>

text \<open>
  \<^verbatim>\<open>getopt_long\<close> returns the character for a short option, which the \<^verbatim>\<open>switch\<close>
  turns into a flag; for a long option it stores 1 through the option's flag pointer
  itself and returns 0, which the \<^verbatim>\<open>switch\<close> ignores, as it ignores \<^verbatim>\<open>'?'\<close>.
\<close>

fun parse_step :: "flags \<Rightarrow> option_hit \<Rightarrow> flags" where
  "parse_step f Short_h = f\<lparr>help_flag := 1\<rparr>"
| "parse_step f Short_d = f\<lparr>daemonize_flag := 1\<rparr>"
| "parse_step f Long_help = f\<lparr>help_flag := 1\<rparr>"
| "parse_step f Long_daemonize = f\<lparr>daemonize_flag := 1\<rparr>"
| "parse_step f Long_version = f\<lparr>version_flag := 1\<rparr>"
| "parse_step f Long_verbose = f\<lparr>VERBOSE := 1\<rparr>"
| "parse_step f Unrecognized = f"

definition flags0 :: flags where
  "flags0 = \<lparr>help_flag = 0, version_flag = 0, daemonize_flag = 0, VERBOSE = 0\<rparr>"

definition parse_options :: "option_hit list \<Rightarrow> flags" where
  "parse_options hits = foldl parse_step flags0 hits"

subsection \<open>Daemonizing (lines 102 to 112)\<close>

text \<open>
  \<^verbatim>\<open>daemon(nochdir, noclose)\<close> of the C library: the process detaches from its
  terminal; when \<^verbatim>\<open>nochdir\<close> is zero it changes the working directory to the root
  directory, and when \<^verbatim>\<open>noclose\<close> is zero it redirects standard input, output and
  error to \<^verbatim>\<open>/dev/null\<close>. The program does not look at the value \<^verbatim>\<open>daemon\<close>
  returns; the model is the call that succeeds.
\<close>

definition daemon :: "int \<Rightarrow> int \<Rightarrow> state \<Rightarrow> state" where
  "daemon nochdir noclose \<sigma> =
     emit (Daemon nochdir noclose)
       (\<sigma>\<lparr>detached := True,
          cwd := (if nochdir = 0 then ''/'' else cwd \<sigma>),
          stdio_null := (if noclose = 0 then True else stdio_null \<sigma>)\<rparr>)"

definition daemonize_step :: "flags \<Rightarrow> state \<Rightarrow> state" where
  "daemonize_step f \<sigma> =
     (if daemonize_flag f = 1 \<and> VERBOSE f \<noteq> 1 then
        daemon 0 0
          (emit (Sigaction SIGHUP Sig_ign)
            (emit (Sigaction SIGQUIT Sigterm_handler)
              (emit (Sigaction SIGTERM Sigterm_handler)
                (emit (Sigaction SIGINT Sigterm_handler) \<sigma>))))
      else \<sigma>)"

subsection \<open>The event loop (lines 137 to 167)\<close>

definition is_launch :: "effect \<Rightarrow> bool" where
  "is_launch e = (case e of Ar_launch _ \<Rightarrow> True | _ \<Rightarrow> False)"

text \<open>The number of calls of \<open>ar_launch\<close> so far.\<close>

definition invocations :: "state \<Rightarrow> nat" where
  "invocations \<sigma> = length (filter is_launch (trace \<sigma>))"

text \<open>Line 160: the call, whose return value is dropped.\<close>

definition call_ar_launch :: "input \<Rightarrow> state \<Rightarrow> state" where
  "call_ar_launch inp \<sigma> =
     emit (Ar_launch (snd (ar_launch (environ inp) (spawn inp (invocations \<sigma>))))) \<sigma>"

definition assign_last_time :: "time_t \<Rightarrow> state \<Rightarrow> state" where
  "assign_last_time t \<sigma> = emit (Assign_last_time t) (\<sigma>\<lparr>last_time := t\<rparr>)"

definition assign_last_timestamp :: "xcb_timestamp_t \<Rightarrow> state \<Rightarrow> state" where
  "assign_last_timestamp T \<sigma> = emit (Assign_last_timestamp T) (\<sigma>\<lparr>last_timestamp := T\<rparr>)"

text \<open>
  Lines 152 to 164, for an event and the value \<open>clock\<close> that \<^verbatim>\<open>time(NULL)\<close> returns
  at line 156. The test of line 152 is the bitwise and of the response type, promoted to
  \<^verbatim>\<open>int\<close>, with the mask: the value the commented-out log of lines 148 to 150 calls
  "screen change masked".
\<close>

definition screen_change_masked :: "xcb_generic_event_t \<Rightarrow> int" where
  "screen_change_masked evt = uint (response_type evt) AND XCB_RANDR_NOTIFY_MASK_SCREEN_CHANGE"

definition dispatch :: "flags \<Rightarrow> input \<Rightarrow> xcb_generic_event_t \<Rightarrow> time_t \<Rightarrow> state \<Rightarrow> state" where
  "dispatch f inp evt clock \<sigma> =
     (if screen_change_masked evt \<noteq> 0 then
        (let evt_time = clock in
         if timestamp evt > last_timestamp \<sigma> \<and> evt_time > last_time \<sigma> + 1 then
           assign_last_timestamp (timestamp evt)
             (assign_last_time evt_time
               (call_ar_launch inp
                 (ar_log f ''Launch autorandr!\<newline>'' \<sigma>)))
         else \<sigma>)
      else \<sigma>)"

text \<open>
  One iteration up to the return of \<^verbatim>\<open>xcb_wait_for_event\<close> (lines 141 and 142).
\<close>

definition wait_for_event :: "flags \<Rightarrow> xcb_generic_event_t option \<Rightarrow> state \<Rightarrow> state" where
  "wait_for_event f r \<sigma> = emit (Xcb_wait_for_event r) (ar_log f ''Waiting for event\<newline>'' \<sigma>)"

text \<open>
  The \<^verbatim>\<open>while (1)\<close> loop over what \<^verbatim>\<open>xcb_wait_for_event\<close> returns. The result says
  whether the loop was left through the \<^verbatim>\<open>break\<close> of line 144 (\<open>True\<close>) or the
  process is still waiting for an event that has not come (\<open>False\<close>).
\<close>

fun event_loop ::
  "flags \<Rightarrow> input \<Rightarrow> (xcb_generic_event_t \<times> time_t) option list \<Rightarrow> state \<Rightarrow> state \<times> bool"
where
  "event_loop f inp [] \<sigma> = (ar_log f ''Waiting for event\<newline>'' \<sigma>, False)"
| "event_loop f inp (None # rest) \<sigma> = (wait_for_event f None \<sigma>, True)"
| "event_loop f inp (Some (evt, clock) # rest) \<sigma> =
     event_loop f inp rest (dispatch f inp evt clock (wait_for_event f (Some evt) \<sigma>))"

subsection \<open>\<^verbatim>\<open>main\<close>\<close>

definition help_str :: string where
  "help_str =
     ''Usage: autorandr_launcher [OPTION]\<newline>'' @
     ''\<newline>'' @
     ''Listens to X server screen change events and launches autorandr after an event occurs.\<newline>'' @
     ''\<newline>'' @
     [CHR 0x09] @ ''-h,--help'' @ replicate 3 (CHR 0x09) @ ''Display this help and exit\<newline>'' @
     [CHR 0x09] @ ''-d, --daemonize'' @ replicate 3 (CHR 0x09) @ ''Daemonize program\<newline>'' @
     [CHR 0x09] @ ''--verbose'' @ replicate 3 (CHR 0x09) @
        ''Output debugging information (prevents daemonizing)\<newline>'' @
     [CHR 0x09] @ ''--version'' @ replicate 3 (CHR 0x09) @ ''Display version and exit\<newline>''"

definition version_str :: string where
  "version_str = ''v.5\<newline>''"

definition state0 :: "input \<Rightarrow> state" where
  "state0 inp =
     \<lparr>cwd = cwd0 inp, stdio_null = False, detached = False,
      last_timestamp = 0, last_time = 0, trace = []\<rparr>"

text \<open>
  Lines 137 and 138: \<^verbatim>\<open>last_timestamp = (xcb_timestamp_t) 0\<close> and
  \<^verbatim>\<open>last_time = time(NULL)\<close>.
\<close>

definition init_debounce :: "input \<Rightarrow> state \<Rightarrow> state" where
  "init_debounce inp \<sigma> = \<sigma>\<lparr>last_timestamp := 0, last_time := start_time inp\<rparr>"

text \<open>
  Lines 102 to 116: the daemonizing step and \<^verbatim>\<open>xcb_connect\<close>.
\<close>

definition startup :: "flags \<Rightarrow> input \<Rightarrow> state" where
  "startup f inp = emit Xcb_connect (daemonize_step f (state0 inp))"

text \<open>
  Lines 121 to 138, once the connection has no error: the log line, the subscription
  to screen-change events on the root window, the flush, and the two initial values.
\<close>

definition subscribe :: "flags \<Rightarrow> input \<Rightarrow> state \<Rightarrow> state" where
  "subscribe f inp \<sigma> =
     init_debounce inp
       (emit Xcb_flush
         (emit (Xcb_randr_select_input (root inp) XCB_RANDR_NOTIFY_MASK_SCREEN_CHANGE)
           (ar_log f ''Connected to server\<newline>'' \<sigma>)))"

text \<open>
  \<^verbatim>\<open>main\<close>. The outcome is the argument of the \<^verbatim>\<open>exit\<close> that ended the process, 0
  when control reaches the closing brace of \<^verbatim>\<open>main\<close> after the loop, and \<open>Blocked\<close>
  when the process is still waiting for an event. Signals are not part of the model.
\<close>

definition main :: "input \<Rightarrow> state \<times> outcome" where
  "main inp =
     (let f = parse_options (options inp) in
      if help_flag f = 1 then (emit (Stdout help_str) (state0 inp), Exited 0)
      else if version_flag f = 1 then (emit (Stdout version_str) (state0 inp), Exited 0)
      else
        (let conn_error = connection_has_error inp in
         if conn_error \<noteq> 0
         then (emit (Stderr ''Connection error!\<newline>'') (startup f inp), Exited conn_error)
         else
           (case event_loop f inp (events inp) (subscribe f inp (startup f inp)) of
              (\<sigma>, closed) \<Rightarrow> (\<sigma>, if closed then Exited 0 else Blocked))))"

section \<open>Concrete runs\<close>

text \<open>
  An event whose response type has bit 0 set (89 is the code of the RandR screen-change
  event on an X.Org server that gives the extension the event base 89), and a run of the
  whole program: started at clock value 1000 in \<^verbatim>\<open>/home/user\<close>, the connection
  succeeds and every launched tool exits with status 0.
\<close>

definition notification :: "xcb_timestamp_t \<Rightarrow> xcb_generic_event_t" where
  "notification T = \<lparr>response_type = 89, timestamp = T\<rparr>"

definition run ::
  "option_hit list \<Rightarrow> (xcb_generic_event_t \<times> time_t) option list \<Rightarrow> input" where
  "run hits evs =
     \<lparr>options = hits, environ = [''DISPLAY=:0''], cwd0 = ''/home/user'', connection_has_error = 0,
      root = 0x25d, start_time = 1000, spawn = (\<lambda>n. Tool_terminated 0), events = evs\<rparr>"

text \<open>A state in the middle of a run: the last launch was for timestamp 100 at 1010.\<close>

definition mid_state :: state where
  "mid_state =
     \<lparr>cwd = ''/home/user'', stdio_null = False, detached = False,
      last_timestamp = 100, last_time = 1010, trace = []\<rparr>"

text \<open>
  An event of another type whose response type has bit 0 set: 33 is the core protocol's
  \<^verbatim>\<open>ClientMessage\<close> (\<^verbatim>\<open>XCB_CLIENT_MESSAGE\<close> in \<^verbatim>\<open>xcb/xproto.h\<close>; extension events such
  as RandR's have codes from 64 on). Its bytes 4 to 7 hold a window id.
\<close>

definition client_message :: "32 word \<Rightarrow> xcb_generic_event_t" where
  "client_message window = \<lparr>response_type = 33, timestamp = window\<rparr>"

text \<open>An operating system on which every \<^verbatim>\<open>execve\<close> of the tool fails.\<close>

definition exec_always_fails :: "nat \<Rightarrow> spawn_outcome" where
  "exec_always_fails n = Exec_failed"

subsection \<open>The parent's view of a run\<close>

text \<open>
  The state with the children taken out of the trace: what is left is everything the
  parent did and every value it holds.
\<close>

definition forget_child :: "effect \<Rightarrow> effect" where
  "forget_child e = (case e of Ar_launch _ \<Rightarrow> Ar_launch None | _ \<Rightarrow> e)"

definition forget_children :: "state \<Rightarrow> state" where
  "forget_children \<sigma> = \<sigma>\<lparr>trace := map forget_child (trace \<sigma>)\<rparr>"

subsection \<open>Spacing of arrival times\<close>

text \<open>
  Two readings of "spaced a second apart" for consecutive clock values, which are whole
  seconds: at least one second, and more than one second.
\<close>

definition at_least_1s_apart :: "time_t \<Rightarrow> time_t \<Rightarrow> bool" where
  "at_least_1s_apart t t' \<longleftrightarrow> t + 1 \<le> t'"

definition more_than_1s_apart :: "time_t \<Rightarrow> time_t \<Rightarrow> bool" where
  "more_than_1s_apart t t' \<longleftrightarrow> t + 1 < t'"

section \<open>Basic facts\<close>

lemma trace_emit: "trace (emit e \<sigma>) = trace \<sigma> @ [e]"
  by (simp add: emit_def)

lemma invocations_emit:
  "invocations (emit e \<sigma>) = invocations \<sigma> + (if is_launch e then 1 else 0)"
  by (simp add: invocations_def emit_def)

lemma invocations_ar_log: "invocations (ar_log f msg \<sigma>) = invocations \<sigma>"
  by (simp add: ar_log_def invocations_emit is_launch_def)

lemma trace_ar_log:
  "trace (ar_log f msg \<sigma>) = trace \<sigma> @ (if VERBOSE f = 0 then [] else [Stdout msg])"
  by (simp add: ar_log_def emit_def)

lemma ar_log_fields:
  "last_timestamp (ar_log f msg \<sigma>) = last_timestamp \<sigma>"
  "last_time (ar_log f msg \<sigma>) = last_time \<sigma>"
  "cwd (ar_log f msg \<sigma>) = cwd \<sigma>"
  "stdio_null (ar_log f msg \<sigma>) = stdio_null \<sigma>"
  "detached (ar_log f msg \<sigma>) = detached \<sigma>"
  by (simp_all add: ar_log_def emit_def)

lemma emit_fields:
  "last_timestamp (emit e \<sigma>) = last_timestamp \<sigma>"
  "last_time (emit e \<sigma>) = last_time \<sigma>"
  "cwd (emit e \<sigma>) = cwd \<sigma>"
  "stdio_null (emit e \<sigma>) = stdio_null \<sigma>"
  "detached (emit e \<sigma>) = detached \<sigma>"
  by (simp_all add: emit_def)

lemma wait_for_event_fields:
  "last_timestamp (wait_for_event f r \<sigma>) = last_timestamp \<sigma>"
  "last_time (wait_for_event f r \<sigma>) = last_time \<sigma>"
  "cwd (wait_for_event f r \<sigma>) = cwd \<sigma>"
  "stdio_null (wait_for_event f r \<sigma>) = stdio_null \<sigma>"
  "detached (wait_for_event f r \<sigma>) = detached \<sigma>"
  "invocations (wait_for_event f r \<sigma>) = invocations \<sigma>"
  by (simp_all add: wait_for_event_def emit_fields ar_log_fields invocations_emit
      invocations_ar_log is_launch_def)

lemma assign_last_time_fields:
  "last_timestamp (assign_last_time t \<sigma>) = last_timestamp \<sigma>"
  "last_time (assign_last_time t \<sigma>) = t"
  "cwd (assign_last_time t \<sigma>) = cwd \<sigma>"
  "stdio_null (assign_last_time t \<sigma>) = stdio_null \<sigma>"
  "detached (assign_last_time t \<sigma>) = detached \<sigma>"
  "trace (assign_last_time t \<sigma>) = trace \<sigma> @ [Assign_last_time t]"
  "invocations (assign_last_time t \<sigma>) = invocations \<sigma>"
  by (simp_all add: assign_last_time_def emit_def invocations_def is_launch_def)

lemma assign_last_timestamp_fields:
  "last_timestamp (assign_last_timestamp T \<sigma>) = T"
  "last_time (assign_last_timestamp T \<sigma>) = last_time \<sigma>"
  "cwd (assign_last_timestamp T \<sigma>) = cwd \<sigma>"
  "stdio_null (assign_last_timestamp T \<sigma>) = stdio_null \<sigma>"
  "detached (assign_last_timestamp T \<sigma>) = detached \<sigma>"
  "trace (assign_last_timestamp T \<sigma>) = trace \<sigma> @ [Assign_last_timestamp T]"
  "invocations (assign_last_timestamp T \<sigma>) = invocations \<sigma>"
  by (simp_all add: assign_last_timestamp_def emit_def invocations_def is_launch_def)

lemma call_ar_launch_fields:
  "last_timestamp (call_ar_launch inp \<sigma>) = last_timestamp \<sigma>"
  "last_time (call_ar_launch inp \<sigma>) = last_time \<sigma>"
  "cwd (call_ar_launch inp \<sigma>) = cwd \<sigma>"
  "stdio_null (call_ar_launch inp \<sigma>) = stdio_null \<sigma>"
  "detached (call_ar_launch inp \<sigma>) = detached \<sigma>"
  "trace (call_ar_launch inp \<sigma>) =
     trace \<sigma> @ [Ar_launch (snd (ar_launch (environ inp) (spawn inp (invocations \<sigma>))))]"
  "invocations (call_ar_launch inp \<sigma>) = invocations \<sigma> + 1"
  by (simp_all add: call_ar_launch_def emit_def invocations_def is_launch_def)

text \<open>The three ways through \<open>dispatch\<close>.\<close>

lemma dispatch_unmasked:
  "screen_change_masked evt = 0 \<Longrightarrow> dispatch f inp evt now \<sigma> = \<sigma>"
  by (simp add: dispatch_def)

lemma dispatch_suppressed:
  "\<not> (last_timestamp \<sigma> < timestamp evt \<and> last_time \<sigma> + 1 < now) \<Longrightarrow>
   dispatch f inp evt now \<sigma> = \<sigma>"
  by (auto simp: dispatch_def Let_def)

lemma dispatch_triggered:
  "screen_change_masked evt \<noteq> 0 \<Longrightarrow> last_timestamp \<sigma> < timestamp evt \<Longrightarrow>
   last_time \<sigma> + 1 < now \<Longrightarrow>
   dispatch f inp evt now \<sigma> =
     assign_last_timestamp (timestamp evt)
       (assign_last_time now
         (call_ar_launch inp (ar_log f ''Launch autorandr!\<newline>'' \<sigma>)))"
  by (simp add: dispatch_def)

lemma triggered_fields:
  fixes \<sigma> :: state and f inp now T
  defines "\<sigma>' \<equiv> assign_last_timestamp T
       (assign_last_time now (call_ar_launch inp (ar_log f ''Launch autorandr!\<newline>'' \<sigma>)))"
  shows "last_timestamp \<sigma>' = T" and "last_time \<sigma>' = now"
    and "invocations \<sigma>' = invocations \<sigma> + 1"
    and "cwd \<sigma>' = cwd \<sigma>" and "stdio_null \<sigma>' = stdio_null \<sigma>" and "detached \<sigma>' = detached \<sigma>"
    and "trace \<sigma>' =
          trace \<sigma> @ (if VERBOSE f = 0 then [] else [Stdout ''Launch autorandr!\<newline>'']) @
            [Ar_launch (snd (ar_launch (environ inp) (spawn inp (invocations \<sigma>)))),
             Assign_last_time now, Assign_last_timestamp T]"
  unfolding \<sigma>'_def
  by (simp_all add: assign_last_timestamp_fields assign_last_time_fields call_ar_launch_fields
      ar_log_fields invocations_ar_log trace_ar_log)

text \<open>
  Claim C1. For an event that passes the test of line 152 (a received change
  notification) with timestamp \<open>T\<close>, handled at clock value \<open>now\<close>: \<open>ar_launch\<close> is
  called once if \<open>T > last_timestamp\<close> and \<open>now > last_time + 1\<close>, and not at all
  otherwise. When it is called, the effects of the step are, in this order, the log line
  (in verbose mode), the launch, the assignment \<open>last_time = now\<close> and the assignment
  \<open>last_timestamp = T\<close>: the launch comes before both assignments.
\<close>

theorem debounce_trigger:
  assumes "screen_change_masked evt \<noteq> 0"
  shows "invocations (dispatch f inp evt now \<sigma>) =
           invocations \<sigma> +
             (if timestamp evt > last_timestamp \<sigma> \<and> now > last_time \<sigma> + 1 then 1 else 0)
       \<and> (timestamp evt > last_timestamp \<sigma> \<and> now > last_time \<sigma> + 1 \<longrightarrow>
            trace (dispatch f inp evt now \<sigma>) =
              trace \<sigma> @ (if VERBOSE f = 0 then [] else [Stdout ''Launch autorandr!\<newline>'']) @
                [Ar_launch (snd (ar_launch (environ inp) (spawn inp (invocations \<sigma>)))),
                 Assign_last_time now, Assign_last_timestamp (timestamp evt)]
            \<and> last_timestamp (dispatch f inp evt now \<sigma>) = timestamp evt
            \<and> last_time (dispatch f inp evt now \<sigma>) = now)"
proof (cases "timestamp evt > last_timestamp \<sigma> \<and> now > last_time \<sigma> + 1")
  case True
  then have eq: "dispatch f inp evt now \<sigma> =
     assign_last_timestamp (timestamp evt)
       (assign_last_time now
         (call_ar_launch inp (ar_log f ''Launch autorandr!\<newline>'' \<sigma>)))"
    using assms by (simp add: dispatch_triggered)
  show ?thesis unfolding eq using True by (simp add: triggered_fields)
next
  case False
  then have "dispatch f inp evt now \<sigma> = \<sigma>" by (rule dispatch_suppressed)
  with False show ?thesis by auto
qed

text \<open>
  Claim C6. A notification whose timestamp is at most \<open>last_timestamp\<close> leaves the
  whole state as it is, whatever the clock says: no launch, no assignment, no output.
  In particular, when a notification has triggered, the same notification handled again
  at any later clock value changes nothing.
\<close>

theorem stale_timestamp_ignored:
  "(timestamp evt \<le> last_timestamp \<sigma> \<longrightarrow> dispatch f inp evt now \<sigma> = \<sigma>)
   \<and> (screen_change_masked evt \<noteq> 0 \<and> last_timestamp \<sigma> < timestamp evt \<and> last_time \<sigma> + 1 < now \<longrightarrow>
        dispatch f inp evt later (dispatch f inp evt now \<sigma>) = dispatch f inp evt now \<sigma>)"
proof (intro conjI impI)
  assume "timestamp evt \<le> last_timestamp \<sigma>"
  then have "\<not> (last_timestamp \<sigma> < timestamp evt \<and> last_time \<sigma> + 1 < now)"
    by (simp add: not_less)
  then show "dispatch f inp evt now \<sigma> = \<sigma>" by (rule dispatch_suppressed)
next
  assume trig: "screen_change_masked evt \<noteq> 0 \<and> last_timestamp \<sigma> < timestamp evt
      \<and> last_time \<sigma> + 1 < now"
  then have "dispatch f inp evt now \<sigma> =
      assign_last_timestamp (timestamp evt)
        (assign_last_time now
          (call_ar_launch inp (ar_log f ''Launch autorandr!\<newline>'' \<sigma>)))"
    by (simp add: dispatch_triggered)
  then have "last_timestamp (dispatch f inp evt now \<sigma>) = timestamp evt"
    by (simp add: triggered_fields)
  then have "\<not> (last_timestamp (dispatch f inp evt now \<sigma>) < timestamp evt
      \<and> last_time (dispatch f inp evt now \<sigma>) + 1 < later)"
    by simp
  then show "dispatch f inp evt later (dispatch f inp evt now \<sigma>) = dispatch f inp evt now \<sigma>"
    by (rule dispatch_suppressed)
qed

lemma last_timestamp_dispatch: "last_timestamp \<sigma> \<le> last_timestamp (dispatch f inp evt now \<sigma>)"
proof (cases "screen_change_masked evt \<noteq> 0 \<and> last_timestamp \<sigma> < timestamp evt \<and> last_time \<sigma> + 1 < now")
  case True
  then show ?thesis by (simp add: dispatch_triggered triggered_fields less_imp_le)
next
  case False
  then have "dispatch f inp evt now \<sigma> = \<sigma>"
    by (auto simp: dispatch_unmasked dispatch_suppressed)
  then show ?thesis by simp
qed

lemma last_timestamp_event_loop:
  "last_timestamp \<sigma> \<le> last_timestamp (fst (event_loop f inp xs \<sigma>))"
proof (induction xs arbitrary: \<sigma>)
  case Nil
  show ?case by (simp add: ar_log_fields)
next
  case (Cons x xs)
  show ?case
  proof (cases x)
    case None
    then show ?thesis by (simp add: wait_for_event_fields)
  next
    case (Some p)
    obtain evt clock where p: "p = (evt, clock)" by (cases p)
    have "last_timestamp \<sigma> = last_timestamp (wait_for_event f (Some evt) \<sigma>)"
      by (simp add: wait_for_event_fields)
    also have "\<dots> \<le> last_timestamp (dispatch f inp evt clock (wait_for_event f (Some evt) \<sigma>))"
      by (rule last_timestamp_dispatch)
    also have "\<dots> \<le> last_timestamp (fst (event_loop f inp xs
        (dispatch f inp evt clock (wait_for_event f (Some evt) \<sigma>))))"
      by (rule Cons.IH)
    finally show ?thesis using Some p by simp
  qed
qed

lemma last_timestamp_prefix:
  "last_timestamp (fst (event_loop f inp xs \<sigma>)) \<le>
   last_timestamp (fst (event_loop f inp (xs @ ys) \<sigma>))"
proof (induction xs arbitrary: \<sigma>)
  case Nil
  show ?case using last_timestamp_event_loop [of \<sigma> f inp ys] by (simp add: ar_log_fields)
next
  case (Cons x xs)
  show ?case
  proof (cases x)
    case None
    then show ?thesis by simp
  next
    case (Some p)
    then show ?thesis using Cons.IH by (cases p) simp
  qed
qed

lemma invocations_state0: "invocations (state0 inp) = 0"
  by (simp add: invocations_def state0_def)

lemma invocations_daemonize_step: "invocations (daemonize_step f \<sigma>) = invocations \<sigma>"
  by (simp add: daemonize_step_def daemon_def emit_def invocations_def is_launch_def)

lemma invocations_startup: "invocations (startup f inp) = 0"
  by (simp add: startup_def invocations_emit is_launch_def invocations_daemonize_step
      invocations_state0)

lemma invocations_subscribe: "invocations (subscribe f inp \<sigma>) = invocations \<sigma>"
  by (simp add: subscribe_def init_debounce_def invocations_def emit_def ar_log_def is_launch_def)

lemma last_timestamp_subscribe: "last_timestamp (subscribe f inp \<sigma>) = 0"
  by (simp add: subscribe_def init_debounce_def)

text \<open>
  Claim C7. An event with timestamp 0 never triggers: \<open>last_timestamp\<close> is unsigned and
  starts at the literal 0, and the test is a strict \<open>>\<close>. This holds in every state, and
  for the first event of a run of \<open>main\<close> in particular.
\<close>

theorem zero_timestamp_never_triggers:
  assumes "timestamp evt = 0"
  shows "dispatch f inp evt now \<sigma> = \<sigma>
       \<and> invocations (fst (main (inp\<lparr>events := [Some (evt, now)]\<rparr>))) = 0"
proof
  show step: "dispatch f inp evt now \<sigma> = \<sigma>" for f inp \<sigma>
    by (rule dispatch_suppressed) (simp add: assms)
  show "invocations (fst (main (inp\<lparr>events := [Some (evt, now)]\<rparr>))) = 0"
    by (simp add: main_def Let_def step invocations_emit is_launch_def invocations_state0
        invocations_startup invocations_subscribe wait_for_event_fields invocations_ar_log)
qed

text \<open>
  Claim C5. \<open>last_timestamp\<close> never decreases: not in one step of the loop, and not
  between any point of a run of \<open>main\<close> and a later one (the run on a sequence of events
  and the run on any extension of it).
\<close>

theorem last_timestamp_monotone:
  "last_timestamp \<sigma> \<le> last_timestamp (dispatch f inp evt now \<sigma>)
   \<and> last_timestamp (fst (main (inp\<lparr>events := xs\<rparr>)))
       \<le> last_timestamp (fst (main (inp\<lparr>events := xs @ ys\<rparr>)))"
proof
  show "last_timestamp \<sigma> \<le> last_timestamp (dispatch f inp evt now \<sigma>)"
    by (rule last_timestamp_dispatch)
  have sub: "subscribe f (inp\<lparr>events := zs\<rparr>) = subscribe f inp"
    and st: "startup f (inp\<lparr>events := zs\<rparr>) = startup f inp"
    and st0: "state0 (inp\<lparr>events := zs\<rparr>) = state0 inp" for f zs
    by (simp_all add: subscribe_def startup_def state0_def init_debounce_def fun_eq_iff)
  have loop: "event_loop f (inp\<lparr>events := zs\<rparr>) es \<sigma>' = event_loop f inp es \<sigma>'" for f zs es \<sigma>'
  proof (induction es arbitrary: \<sigma>')
    case Nil
    show ?case by simp
  next
    case (Cons e es)
    have "dispatch f (inp\<lparr>events := zs\<rparr>) evt' c \<sigma>'' = dispatch f inp evt' c \<sigma>''" for evt' c \<sigma>''
      by (simp add: dispatch_def call_ar_launch_def)
    with Cons show ?case by (cases e) auto
  qed
  show "last_timestamp (fst (main (inp\<lparr>events := xs\<rparr>)))
       \<le> last_timestamp (fst (main (inp\<lparr>events := xs @ ys\<rparr>)))"
    using last_timestamp_prefix [of f inp xs _ ys for f]
    by (simp add: main_def Let_def sub st st0 loop split_beta)
qed

theorem debounce_trigger_witness:
  "screen_change_masked (notification 150) \<noteq> 0
   \<and> invocations (dispatch flags0 (run [] []) (notification 150) 1012 mid_state) = 1
   \<and> trace (dispatch flags0 (run [] []) (notification 150) 1012 mid_state) =
       [Ar_launch (Some \<lparr>path = ''/usr/bin/autorandr'',
                         argv = [''/usr/bin/autorandr'', ''--change'', ''--default'', ''default''],
                         envp = [''DISPLAY=:0''], exit_status = 0\<rparr>),
        Assign_last_time 1012, Assign_last_timestamp 150]
   \<and> invocations (dispatch flags0 (run [] []) (notification 150) 1011 mid_state) = 0"
proof -
  have h: "screen_change_masked (notification 150) \<noteq> 0"
    by (simp add: screen_change_masked_def notification_def XCB_RANDR_NOTIFY_MASK_SCREEN_CHANGE_def)
  have m: "invocations mid_state = 0" "trace mid_state = []" "last_timestamp mid_state = 100"
    "last_time mid_state = 1010"
    by (simp_all add: mid_state_def invocations_def)
  show ?thesis
    using h debounce_trigger [OF h, of flags0 "run [] []" 1012 mid_state]
      debounce_trigger [OF h, of flags0 "run [] []" 1011 mid_state]
    by (simp add: m notification_def flags0_def run_def ar_launch_def child_main_def
        autorandr_argv_def)
qed

theorem stale_timestamp_ignored_witness:
  "timestamp (notification 100) \<le> last_timestamp mid_state
   \<and> dispatch flags0 (run [] []) (notification 100) 5000 mid_state = mid_state
   \<and> last_timestamp mid_state < timestamp (notification 150)
   \<and> dispatch flags0 (run [] []) (notification 150) 5000
         (dispatch flags0 (run [] []) (notification 150) 1012 mid_state)
       = dispatch flags0 (run [] []) (notification 150) 1012 mid_state"
proof -
  have h: "timestamp (notification 100) \<le> last_timestamp mid_state"
    "screen_change_masked (notification 150) \<noteq> 0"
    "last_timestamp mid_state < timestamp (notification 150)"
    "last_time mid_state + 1 < 1012"
    by (simp_all add: notification_def mid_state_def screen_change_masked_def
        XCB_RANDR_NOTIFY_MASK_SCREEN_CHANGE_def)
  from h
    stale_timestamp_ignored [where evt = "notification 100" and \<sigma> = mid_state and f = flags0
      and inp = "run [] []" and now = 5000]
    stale_timestamp_ignored [where evt = "notification 150" and \<sigma> = mid_state and f = flags0
      and inp = "run [] []" and now = 1012 and later = 5000]
  show ?thesis by simp
qed

theorem zero_timestamp_never_triggers_witness:
  "timestamp (notification 0) = 0
   \<and> invocations (fst (main (run [] [Some (notification 0, 5000)]))) = 0"
proof -
  have h: "timestamp (notification 0) = 0" by (simp add: notification_def)
  have "(run [] [])\<lparr>events := [Some (notification 0, 5000)]\<rparr> = run [] [Some (notification 0, 5000)]"
    by (simp add: run_def)
  with h zero_timestamp_never_triggers [OF h, of _ "run [] []" 5000] show ?thesis by simp
qed

theorem last_timestamp_monotone_witness:
  "last_timestamp (fst (main (run [] [Some (notification 7, 1005)])))
     \<le> last_timestamp (fst (main (run [] [Some (notification 7, 1005), Some (notification 3, 1010)])))"
proof -
  have "(run [] [])\<lparr>events := zs\<rparr> = run [] zs" for zs by (simp add: run_def)
  with last_timestamp_monotone [where inp = "run [] []" and xs = "[Some (notification 7, 1005)]"
      and ys = "[Some (notification 3, 1010)]"]
  show ?thesis by simp
qed

lemma suppressed_loop:
  assumes "\<forall>n\<in>set ns. snd n \<le> last_time \<sigma> + 1"
  shows "last_timestamp (fst (event_loop f inp (map Some ns) \<sigma>)) = last_timestamp \<sigma>
       \<and> last_time (fst (event_loop f inp (map Some ns) \<sigma>)) = last_time \<sigma>
       \<and> invocations (fst (event_loop f inp (map Some ns) \<sigma>)) = invocations \<sigma>"
  using assms
proof (induction ns arbitrary: \<sigma>)
  case Nil
  show ?case by (simp add: ar_log_fields invocations_ar_log)
next
  case (Cons n ns)
  obtain e t where n: "n = (e, t)" by (cases n)
  let ?w = "wait_for_event f (Some e) \<sigma>"
  from Cons.prems n have "\<not> (last_timestamp ?w < timestamp e \<and> last_time ?w + 1 < t)"
    by (simp add: wait_for_event_fields)
  then have d: "dispatch f inp e t ?w = ?w" by (rule dispatch_suppressed)
  from Cons.prems have "\<forall>n\<in>set ns. snd n \<le> last_time ?w + 1"
    by (simp add: wait_for_event_fields)
  from Cons.IH [OF this] show ?case
    by (simp add: n d wait_for_event_fields)
qed

text \<open>
  Claim C3. A burst: a notification that triggers, followed by one or more
  notifications with higher and higher timestamps that are all handled at the same clock
  value. The first one causes a launch, the whole burst causes exactly that one, and
  afterwards \<open>last_timestamp\<close> and \<open>last_time\<close> are the first notification's.
\<close>

theorem burst_collapses:
  assumes first: "screen_change_masked e \<noteq> 0" "last_timestamp \<sigma> < timestamp e"
      "last_time \<sigma> + 1 < t"
    and burst: "rest \<noteq> []" "\<forall>n\<in>set rest. screen_change_masked (fst n) \<noteq> 0 \<and> snd n = t"
    and incr: "sorted_wrt (<) (map (timestamp \<circ> fst) ((e, t) # rest))"
  shows "invocations (dispatch f inp e t (wait_for_event f (Some e) \<sigma>)) = invocations \<sigma> + 1
       \<and> invocations (fst (event_loop f inp (map Some ((e, t) # rest)) \<sigma>)) = invocations \<sigma> + 1
       \<and> last_timestamp (fst (event_loop f inp (map Some ((e, t) # rest)) \<sigma>)) = timestamp e
       \<and> last_time (fst (event_loop f inp (map Some ((e, t) # rest)) \<sigma>)) = t"
proof -
  let ?w = "wait_for_event f (Some e) \<sigma>"
  let ?\<sigma>1 = "dispatch f inp e t ?w"
  have eq: "?\<sigma>1 = assign_last_timestamp (timestamp e)
       (assign_last_time t (call_ar_launch inp (ar_log f ''Launch autorandr!\<newline>'' ?w)))"
    using first by (simp add: dispatch_triggered wait_for_event_fields)
  have s1: "invocations ?\<sigma>1 = invocations \<sigma> + 1" "last_timestamp ?\<sigma>1 = timestamp e"
    "last_time ?\<sigma>1 = t"
    unfolding eq by (simp_all add: triggered_fields wait_for_event_fields)
  from burst have "\<forall>n\<in>set rest. snd n \<le> last_time ?\<sigma>1 + 1" by (simp add: s1)
  from suppressed_loop [OF this, of f inp] show ?thesis by (simp add: s1)
qed

text \<open>
  Claim C2, amended. Notifications with strictly increasing timestamps, all above
  \<open>last_timestamp\<close>, each handled more than one second after the one before and the
  first more than one second after \<open>last_time\<close>: every one of them causes a launch.
\<close>

theorem spaced_notifications_all_launch:
  assumes "\<forall>n\<in>set ns. screen_change_masked (fst n) \<noteq> 0"
    and "sorted_wrt (<) (last_timestamp \<sigma> # map (timestamp \<circ> fst) ns)"
    and "successively more_than_1s_apart (last_time \<sigma> # map snd ns)"
  shows "invocations (fst (event_loop f inp (map Some ns) \<sigma>)) = invocations \<sigma> + length ns"
  using assms
proof (induction ns arbitrary: \<sigma>)
  case Nil
  show ?case by (simp add: invocations_ar_log)
next
  case (Cons n ns)
  obtain e t where n: "n = (e, t)" by (cases n)
  let ?w = "wait_for_event f (Some e) \<sigma>"
  let ?\<sigma>1 = "dispatch f inp e t ?w"
  from Cons.prems n have trig: "screen_change_masked e \<noteq> 0" "last_timestamp ?w < timestamp e"
    "last_time ?w + 1 < t"
    by (simp_all add: wait_for_event_fields more_than_1s_apart_def)
  then have eq: "?\<sigma>1 = assign_last_timestamp (timestamp e)
       (assign_last_time t (call_ar_launch inp (ar_log f ''Launch autorandr!\<newline>'' ?w)))"
    by (rule dispatch_triggered)
  have s1: "invocations ?\<sigma>1 = invocations \<sigma> + 1" "last_timestamp ?\<sigma>1 = timestamp e"
    "last_time ?\<sigma>1 = t"
    unfolding eq by (simp_all add: triggered_fields wait_for_event_fields)
  from Cons.prems n have
    "\<forall>n\<in>set ns. screen_change_masked (fst n) \<noteq> 0"
    "sorted_wrt (<) (last_timestamp ?\<sigma>1 # map (timestamp \<circ> fst) ns)"
    "successively more_than_1s_apart (last_time ?\<sigma>1 # map snd ns)"
    by (simp_all add: s1 comp_def)
  from Cons.IH [OF this] show ?case by (simp add: n s1)
qed

lemma mask_test_is_parity: "screen_change_masked evt \<noteq> 0 \<longleftrightarrow> odd (response_type evt)"
  apply (simp add: screen_change_masked_def XCB_RANDR_NOTIFY_MASK_SCREEN_CHANGE_def and_one_eq)
  apply (metis (mono_tags, lifting) dvd_0_right even_mod_2_iff even_of_nat
    mod_by_0 not_mod_2_eq_0_eq_1 odd_one of_nat_unat unat_mod
    word_arith_nat_mod)
  done

lemmas run_simps =
  main_def Let_def run_def parse_options_def flags0_def startup_def subscribe_def state0_def
  init_debounce_def daemonize_step_def daemon_def wait_for_event_def ar_log_def emit_def
  dispatch_def screen_change_masked_def XCB_RANDR_NOTIFY_MASK_SCREEN_CHANGE_def
  notification_def client_message_def assign_last_timestamp_def assign_last_time_def
  call_ar_launch_def invocations_def is_launch_def ar_launch_def child_main_def
  autorandr_argv_def

text \<open>
  Claim C2 as stated fails, in three ways. Two notifications with increasing timestamps
  handled exactly one second apart, ten seconds after the start: the second one fails
  \<open>evt_time > last_time + 1\<close>, and there is one launch for two notifications. A single
  notification one second after the start fails the same test against the start time.
  And a first notification with timestamp 0 fails \<open>timestamp > last_timestamp\<close>.
\<close>

theorem one_second_spacing_counterexample:
  "sorted_wrt (<) (map (timestamp \<circ> fst) [(notification 100, 1010), (notification 150, 1011)])
   \<and> successively at_least_1s_apart (map snd [(notification 100, 1010), (notification 150, 1011)])
   \<and> invocations (fst (main (run [] (map Some [(notification 100, 1010), (notification 150, 1011)])))) = 1
   \<and> length [(notification 100, 1010), (notification 150, 1011)] = 2
   \<and> invocations (fst (main (run [] (map Some [(notification 100, 1001)])))) = 0
   \<and> sorted_wrt (<) (map (timestamp \<circ> fst) [(notification 0, 1010), (notification 5, 1020)])
   \<and> successively at_least_1s_apart (map snd [(notification 0, 1010), (notification 5, 1020)])
   \<and> invocations (fst (main (run [] (map Some [(notification 0, 1010), (notification 5, 1020)])))) = 1"
  by (simp add: run_simps at_least_1s_apart_def)

text \<open>
  Claim C4. The test of line 152 looks at bit 0 of the response type only, so an event
  of any odd type passes it. A \<^verbatim>\<open>ClientMessage\<close> (type 33) whose window field is
  \<open>0x64\<close>, ten seconds after the start, is handled as a screen-change notification with
  timestamp \<open>0x64\<close>: the tool is launched and \<open>last_timestamp\<close> becomes the window id.
\<close>

theorem odd_event_type_dispatched:
  "screen_change_masked (client_message 0x64) \<noteq> 0
   \<and> invocations (fst (main (run [] [Some (client_message 0x64, 1010)]))) = 1
   \<and> last_timestamp (fst (main (run [] [Some (client_message 0x64, 1010)]))) = 0x64"
  by (simp add: run_simps)

theorem burst_collapses_witness:
  "invocations (fst (event_loop flags0 (run [] [])
      (map Some [(notification 150, 1020), (notification 200, 1020), (notification 250, 1020)])
      mid_state)) = 1
   \<and> last_timestamp (fst (event_loop flags0 (run [] [])
      (map Some [(notification 150, 1020), (notification 200, 1020), (notification 250, 1020)])
      mid_state)) = 150
   \<and> last_time (fst (event_loop flags0 (run [] [])
      (map Some [(notification 150, 1020), (notification 200, 1020), (notification 250, 1020)])
      mid_state)) = 1020"
proof -
  have m: "invocations mid_state = 0" "last_timestamp mid_state = 100" "last_time mid_state = 1010"
    by (simp_all add: mid_state_def invocations_def)
  have k: "screen_change_masked (notification T) \<noteq> 0" for T
    by (simp add: mask_test_is_parity notification_def)
  have
    "screen_change_masked (notification 150) \<noteq> 0"
    "last_timestamp mid_state < timestamp (notification 150)"
    "last_time mid_state + 1 < 1020"
    "[(notification 200, 1020 :: time_t), (notification 250, 1020)] \<noteq> []"
    "\<forall>n\<in>set [(notification 200, 1020 :: time_t), (notification 250, 1020)].
        screen_change_masked (fst n) \<noteq> 0 \<and> snd n = 1020"
    "sorted_wrt (<) (map (timestamp \<circ> fst)
        ((notification 150, 1020 :: time_t) # [(notification 200, 1020), (notification 250, 1020)]))"
    by (simp_all add: k m) (simp_all add: notification_def)
  from burst_collapses [OF this, of flags0 "run [] []"] show ?thesis
    by (simp add: m notification_def)
qed

theorem spaced_notifications_all_launch_witness:
  "invocations (fst (event_loop flags0 (run [] [])
      (map Some [(notification 100, 1002), (notification 150, 1004)])
      (subscribe flags0 (run [] []) (startup flags0 (run [] []))))) = 2"
proof -
  let ?\<sigma> = "subscribe flags0 (run [] []) (startup flags0 (run [] []))"
  have m: "invocations ?\<sigma> = 0" "last_timestamp ?\<sigma> = 0" "last_time ?\<sigma> = 1000"
    by (simp_all add: invocations_subscribe invocations_startup last_timestamp_subscribe)
      (simp add: subscribe_def init_debounce_def run_def)
  have k: "screen_change_masked (notification T) \<noteq> 0" for T
    by (simp add: mask_test_is_parity notification_def)
  have
    "\<forall>n\<in>set [(notification 100, 1002 :: time_t), (notification 150, 1004)].
        screen_change_masked (fst n) \<noteq> 0"
    "sorted_wrt (<) (last_timestamp ?\<sigma> #
        map (timestamp \<circ> fst) [(notification 100, 1002 :: time_t), (notification 150, 1004)])"
    "successively more_than_1s_apart (last_time ?\<sigma> #
        map snd [(notification 100, 1002), (notification 150, 1004)])"
    by (simp_all add: k m more_than_1s_apart_def) (simp_all add: notification_def)
  from spaced_notifications_all_launch [OF this, of flags0 "run [] []"] show ?thesis
    by (simp add: m)
qed

section \<open>Startup, exit and the launch\<close>

lemma foldl_parse_step:
  "help_flag (foldl parse_step f hits) =
     (if Short_h \<in> set hits \<or> Long_help \<in> set hits then 1 else help_flag f)"
  "version_flag (foldl parse_step f hits) =
     (if Long_version \<in> set hits then 1 else version_flag f)"
  "daemonize_flag (foldl parse_step f hits) =
     (if Short_d \<in> set hits \<or> Long_daemonize \<in> set hits then 1 else daemonize_flag f)"
  "VERBOSE (foldl parse_step f hits) =
     (if Long_verbose \<in> set hits then 1 else VERBOSE f)"
proof (induction hits arbitrary: f)
  case Nil
  { case 1 show ?case by simp }
  { case 2 show ?case by simp }
  { case 3 show ?case by simp }
  { case 4 show ?case by simp }
next
  case (Cons h hits)
  { case 1 show ?case by (cases h) (simp_all add: Cons.IH) }
  { case 2 show ?case by (cases h) (simp_all add: Cons.IH) }
  { case 3 show ?case by (cases h) (simp_all add: Cons.IH) }
  { case 4 show ?case by (cases h) (simp_all add: Cons.IH) }
qed

lemma parse_options_flags:
  "help_flag (parse_options hits) = 1 \<longleftrightarrow> Short_h \<in> set hits \<or> Long_help \<in> set hits"
  "version_flag (parse_options hits) = 1 \<longleftrightarrow> Long_version \<in> set hits"
  "daemonize_flag (parse_options hits) = 1 \<longleftrightarrow> Short_d \<in> set hits \<or> Long_daemonize \<in> set hits"
  "VERBOSE (parse_options hits) = 1 \<longleftrightarrow> Long_verbose \<in> set hits"
  by (simp_all add: parse_options_def foldl_parse_step flags0_def)

lemma event_loop_closed: "snd (event_loop f inp evs \<sigma>) \<longleftrightarrow> None \<in> set evs"
proof (induction evs arbitrary: \<sigma>)
  case Nil
  show ?case by simp
next
  case (Cons e evs)
  then show ?case by (cases e) auto
qed

lemma trace_daemonize_step:
  "set (trace (daemonize_step f (state0 inp))) \<subseteq>
     {Sigaction SIGINT Sigterm_handler, Sigaction SIGTERM Sigterm_handler,
      Sigaction SIGQUIT Sigterm_handler, Sigaction SIGHUP Sig_ign, Daemon 0 0}"
  by (simp add: daemonize_step_def daemon_def emit_def state0_def)

lemma trace_startup:
  "set (trace (startup f inp)) \<subseteq>
     {Sigaction SIGINT Sigterm_handler, Sigaction SIGTERM Sigterm_handler,
      Sigaction SIGQUIT Sigterm_handler, Sigaction SIGHUP Sig_ign, Daemon 0 0, Xcb_connect}"
  using trace_daemonize_step [of f inp] by (auto simp: startup_def trace_emit)

text \<open>
  Claim C8. The exit code of \<open>main\<close>. With \<^verbatim>\<open>-h\<close>, \<^verbatim>\<open>--help\<close> or \<^verbatim>\<open>--version\<close>
  on the command line it is 0, and the process has neither connected nor launched
  anything. Otherwise, when \<^verbatim>\<open>xcb_connection_has_error\<close> is non-zero, it is that value,
  and the process has waited for no event and launched nothing. Otherwise, when
  \<^verbatim>\<open>xcb_wait_for_event\<close> returns a null event at some point, it is 0.
\<close>

theorem exit_codes:
  "(Short_h \<in> set (options inp) \<or> Long_help \<in> set (options inp)
      \<or> Long_version \<in> set (options inp) \<longrightarrow>
      snd (main inp) = Exited 0
      \<and> Xcb_connect \<notin> set (trace (fst (main inp)))
      \<and> invocations (fst (main inp)) = 0)
   \<and> (Short_h \<notin> set (options inp) \<and> Long_help \<notin> set (options inp)
      \<and> Long_version \<notin> set (options inp) \<and> connection_has_error inp \<noteq> 0 \<longrightarrow>
      snd (main inp) = Exited (connection_has_error inp)
      \<and> (\<forall>r. Xcb_wait_for_event r \<notin> set (trace (fst (main inp))))
      \<and> invocations (fst (main inp)) = 0)
   \<and> (Short_h \<notin> set (options inp) \<and> Long_help \<notin> set (options inp)
      \<and> Long_version \<notin> set (options inp) \<and> connection_has_error inp = 0
      \<and> None \<in> set (events inp) \<longrightarrow>
      snd (main inp) = Exited 0)"
proof (intro conjI impI)
  assume h: "Short_h \<in> set (options inp) \<or> Long_help \<in> set (options inp)
      \<or> Long_version \<in> set (options inp)"
  then have "help_flag (parse_options (options inp)) = 1
      \<or> version_flag (parse_options (options inp)) = 1"
    by (auto simp: parse_options_flags)
  then have m: "main inp = (emit (Stdout help_str) (state0 inp), Exited 0)
      \<or> main inp = (emit (Stdout version_str) (state0 inp), Exited 0)"
    by (auto simp: main_def Let_def)
  from m show "snd (main inp) = Exited 0" by auto
  from m show "Xcb_connect \<notin> set (trace (fst (main inp)))"
    by (auto simp: trace_emit state0_def)
  from m show "invocations (fst (main inp)) = 0"
    by (auto simp: invocations_emit invocations_state0 is_launch_def)
next
  assume h: "Short_h \<notin> set (options inp) \<and> Long_help \<notin> set (options inp)
      \<and> Long_version \<notin> set (options inp) \<and> connection_has_error inp \<noteq> 0"
  then have "help_flag (parse_options (options inp)) \<noteq> 1"
    "version_flag (parse_options (options inp)) \<noteq> 1"
    by (simp_all add: parse_options_flags)
  with h have m: "main inp = (emit (Stderr ''Connection error!\<newline>'')
      (startup (parse_options (options inp)) inp), Exited (connection_has_error inp))"
    by (simp add: main_def Let_def)
  from m show "snd (main inp) = Exited (connection_has_error inp)" by simp
  from m show "\<forall>r. Xcb_wait_for_event r \<notin> set (trace (fst (main inp)))"
    using trace_startup [of "parse_options (options inp)" inp] by (auto simp: trace_emit)
  from m show "invocations (fst (main inp)) = 0"
    by (simp add: invocations_emit invocations_startup is_launch_def)
next
  assume h: "Short_h \<notin> set (options inp) \<and> Long_help \<notin> set (options inp)
      \<and> Long_version \<notin> set (options inp) \<and> connection_has_error inp = 0
      \<and> None \<in> set (events inp)"
  then have "help_flag (parse_options (options inp)) \<noteq> 1"
    "version_flag (parse_options (options inp)) \<noteq> 1"
    by (simp_all add: parse_options_flags)
  with h show "snd (main inp) = Exited 0"
    using event_loop_closed [of "parse_options (options inp)" inp "events inp"]
    by (simp add: main_def Let_def split_beta)
qed

theorem exit_codes_witness:
  "snd (main (run [Long_verbose, Short_h] [Some (notification 100, 1010)])) = Exited 0
   \<and> trace (fst (main (run [Long_verbose, Short_h] [Some (notification 100, 1010)]))) = [Stdout help_str]
   \<and> snd (main (run [Long_version] [])) = Exited 0
   \<and> snd (main ((run [] [Some (notification 100, 1010)])\<lparr>connection_has_error := 3\<rparr>)) = Exited 3
   \<and> trace (fst (main ((run [] [Some (notification 100, 1010)])\<lparr>connection_has_error := 3\<rparr>)))
       = [Xcb_connect, Stderr ''Connection error!\<newline>'']
   \<and> snd (main (run [] [Some (notification 100, 1010), None])) = Exited 0
   \<and> invocations (fst (main (run [] [Some (notification 100, 1010), None]))) = 1"
  using exit_codes [of "run [Long_verbose, Short_h] [Some (notification 100, 1010)]"]
    exit_codes [of "run [Long_version] []"]
    exit_codes [of "(run [] [Some (notification 100, 1010)])\<lparr>connection_has_error := 3\<rparr>"]
    exit_codes [of "run [] [Some (notification 100, 1010), None]"]
  by (simp add: run_simps)

lemma forget_children_fields:
  "cwd (forget_children \<sigma>) = cwd \<sigma>"
  "stdio_null (forget_children \<sigma>) = stdio_null \<sigma>"
  "detached (forget_children \<sigma>) = detached \<sigma>"
  "last_timestamp (forget_children \<sigma>) = last_timestamp \<sigma>"
  "last_time (forget_children \<sigma>) = last_time \<sigma>"
  "trace (forget_children \<sigma>) = map forget_child (trace \<sigma>)"
  by (simp_all add: forget_children_def)

lemma forget_children_emit:
  "forget_children (emit e \<sigma>) = emit (forget_child e) (forget_children \<sigma>)"
  by (simp add: forget_children_def emit_def)

lemma forget_children_ar_log:
  "forget_children (ar_log f msg \<sigma>) = ar_log f msg (forget_children \<sigma>)"
  by (simp add: ar_log_def forget_children_emit forget_child_def)

lemma forget_children_wait_for_event:
  "forget_children (wait_for_event f r \<sigma>) = wait_for_event f r (forget_children \<sigma>)"
  by (simp add: wait_for_event_def forget_children_emit forget_children_ar_log forget_child_def)

lemma forget_children_assign:
  "forget_children (assign_last_time t \<sigma>) = assign_last_time t (forget_children \<sigma>)"
  "forget_children (assign_last_timestamp T \<sigma>) = assign_last_timestamp T (forget_children \<sigma>)"
  by (simp_all add: assign_last_time_def assign_last_timestamp_def forget_children_def emit_def
      forget_child_def)

lemma forget_children_call_ar_launch:
  "forget_children (call_ar_launch inp \<sigma>) = emit (Ar_launch None) (forget_children \<sigma>)"
  by (simp add: call_ar_launch_def forget_children_emit forget_child_def)

text \<open>
  What \<open>dispatch\<close> leaves for the parent to see is a function of what the parent saw
  before: the outcome of the launch does not enter it.
\<close>

lemma forget_children_dispatch:
  "forget_children (dispatch f inp evt now \<sigma>) =
     (if screen_change_masked evt \<noteq> 0 \<and> last_timestamp \<sigma> < timestamp evt \<and> last_time \<sigma> + 1 < now
      then assign_last_timestamp (timestamp evt)
             (assign_last_time now
               (emit (Ar_launch None)
                 (ar_log f ''Launch autorandr!\<newline>'' (forget_children \<sigma>))))
      else forget_children \<sigma>)"
  by (simp add: dispatch_def Let_def forget_children_assign forget_children_call_ar_launch
      forget_children_ar_log)

lemma forget_children_event_loop:
  assumes "forget_children \<sigma> = forget_children \<sigma>'"
  shows "forget_children (fst (event_loop f (inp\<lparr>spawn := sp\<rparr>) evs \<sigma>)) =
           forget_children (fst (event_loop f inp evs \<sigma>'))
       \<and> snd (event_loop f (inp\<lparr>spawn := sp\<rparr>) evs \<sigma>) = snd (event_loop f inp evs \<sigma>')"
  using assms
proof (induction evs arbitrary: \<sigma> \<sigma>')
  case Nil
  then show ?case by (simp add: forget_children_ar_log)
next
  case (Cons e evs)
  show ?case
  proof (cases e)
    case None
    with Cons.prems show ?thesis by (simp add: forget_children_wait_for_event)
  next
    case (Some p)
    obtain evt now where p: "p = (evt, now)" by (cases p)
    let ?w = "wait_for_event f (Some evt) \<sigma>" and ?w' = "wait_for_event f (Some evt) \<sigma>'"
    from Cons.prems have w: "forget_children ?w = forget_children ?w'"
      by (simp add: forget_children_wait_for_event)
    then have "last_timestamp (forget_children ?w) = last_timestamp (forget_children ?w')"
      "last_time (forget_children ?w) = last_time (forget_children ?w')"
      by simp_all
    then have "last_timestamp ?w = last_timestamp ?w'" "last_time ?w = last_time ?w'"
      by (simp_all only: forget_children_fields)
    with w have "forget_children (dispatch f (inp\<lparr>spawn := sp\<rparr>) evt now ?w) =
        forget_children (dispatch f inp evt now ?w')"
      by (simp add: forget_children_dispatch)
    from Cons.IH [OF this] show ?thesis by (simp add: Some p)
  qed
qed

text \<open>
  Claim C9. \<open>ar_launch\<close> returns 0 whatever happens to the child. There is no child
  only when \<^verbatim>\<open>fork\<close> fails. Every child is given the path
  \<^verbatim>\<open>/usr/bin/autorandr\<close>, the four fixed arguments and the parent's \<^verbatim>\<open>environ\<close>, and
  has terminated when the call returns: with status 127 when \<^verbatim>\<open>execve\<close> failed, with
  the tool's status otherwise. What happens to the children changes nothing else in a
  run of \<open>main\<close>: the parent's effects, its variables and its exit code are the same
  under any other behaviour of the launches.
\<close>

theorem launch_contract:
  "fst (ar_launch env oc) = 0
   \<and> (snd (ar_launch env oc) = None \<longleftrightarrow> oc = Fork_failed)
   \<and> (\<forall>ch. snd (ar_launch env oc) = Some ch \<longrightarrow>
         path ch = ''/usr/bin/autorandr''
         \<and> argv ch = [''/usr/bin/autorandr'', ''--change'', ''--default'', ''default'']
         \<and> envp ch = env
         \<and> (oc = Exec_failed \<longrightarrow> exit_status ch = 127)
         \<and> (\<forall>s. oc = Tool_terminated s \<longrightarrow> exit_status ch = s))
   \<and> forget_children (fst (main (inp\<lparr>spawn := sp\<rparr>))) = forget_children (fst (main inp))
   \<and> snd (main (inp\<lparr>spawn := sp\<rparr>)) = snd (main inp)"
proof -
  have launch: "fst (ar_launch env oc) = 0"
    "snd (ar_launch env oc) = None \<longleftrightarrow> oc = Fork_failed"
    "\<forall>ch. snd (ar_launch env oc) = Some ch \<longrightarrow>
         path ch = ''/usr/bin/autorandr''
         \<and> argv ch = [''/usr/bin/autorandr'', ''--change'', ''--default'', ''default'']
         \<and> envp ch = env
         \<and> (oc = Exec_failed \<longrightarrow> exit_status ch = 127)
         \<and> (\<forall>s. oc = Tool_terminated s \<longrightarrow> exit_status ch = s)"
    by (cases oc; simp add: ar_launch_def child_main_def autorandr_argv_def; fail)+
  have pre: "state0 (inp\<lparr>spawn := sp\<rparr>) = state0 inp"
    "startup f (inp\<lparr>spawn := sp\<rparr>) = startup f inp"
    "subscribe f (inp\<lparr>spawn := sp\<rparr>) = subscribe f inp" for f
    by (simp_all add: state0_def startup_def subscribe_def init_debounce_def fun_eq_iff)
  let ?s = "subscribe (parse_options (options inp)) inp (startup (parse_options (options inp)) inp)"
  have "forget_children ?s = forget_children ?s" ..
  note loop = forget_children_event_loop [OF this, where f = "parse_options (options inp)"
      and inp = inp and sp = sp and evs = "events inp"]
  have "forget_children (fst (main (inp\<lparr>spawn := sp\<rparr>))) = forget_children (fst (main inp))
      \<and> snd (main (inp\<lparr>spawn := sp\<rparr>)) = snd (main inp)"
    using loop by (simp add: main_def Let_def pre split_beta)
  with launch show ?thesis by blast
qed

theorem launch_contract_witness:
  "ar_launch [''DISPLAY=:0''] Exec_failed =
     (0, Some \<lparr>path = ''/usr/bin/autorandr'',
               argv = [''/usr/bin/autorandr'', ''--change'', ''--default'', ''default''],
               envp = [''DISPLAY=:0''], exit_status = 127\<rparr>)
   \<and> forget_children (fst (main ((run [] [Some (notification 100, 1010), None])\<lparr>spawn := exec_always_fails\<rparr>)))
       = forget_children (fst (main (run [] [Some (notification 100, 1010), None])))
   \<and> snd (main ((run [] [Some (notification 100, 1010), None])\<lparr>spawn := exec_always_fails\<rparr>)) = Exited 0"
proof -
  have a: "ar_launch [''DISPLAY=:0''] Exec_failed =
     (0, Some \<lparr>path = ''/usr/bin/autorandr'',
               argv = [''/usr/bin/autorandr'', ''--change'', ''--default'', ''default''],
               envp = [''DISPLAY=:0''], exit_status = 127\<rparr>)"
    by (simp add: ar_launch_def child_main_def autorandr_argv_def)
  have b: "snd (main (run [] [Some (notification 100, 1010), None])) = Exited 0"
    by (simp add: run_simps)
  from launch_contract [where env = "[''DISPLAY=:0'']" and oc = Exec_failed
      and inp = "run [] [Some (notification 100, 1010), None]" and sp = exec_always_fails] a b
  show ?thesis by simp
qed

text \<open>
  Claim C10 as stated fails on the working directory: with \<^verbatim>\<open>-d\<close> and no
  \<^verbatim>\<open>--verbose\<close> the process started in \<^verbatim>\<open>/home/user\<close> is detached and its working
  directory is \<^verbatim>\<open>/\<close>, because line 111 passes 0 for \<^verbatim>\<open>nochdir\<close>.
\<close>

theorem daemon_changes_directory_counterexample:
  "daemonize_flag (parse_options (options (run [Short_d] []))) = 1
   \<and> VERBOSE (parse_options (options (run [Short_d] []))) = 0
   \<and> detached (fst (main (run [Short_d] [])))
   \<and> cwd0 (run [Short_d] []) = ''/home/user''
   \<and> cwd (fst (main (run [Short_d] []))) = ''/''"
  by (simp add: run_simps)

text \<open>
  Claim C10, amended. The step of lines 102 to 112 detaches the process exactly when
  a daemonize option was given and \<^verbatim>\<open>--verbose\<close> was not. When it does, the working
  directory becomes the root directory and the standard streams go to the null device;
  when it does not (both flags set among the cases), the process is left as it was.
\<close>

theorem daemonize_decision:
  "(detached (daemonize_step (parse_options (options inp)) (state0 inp)) \<longleftrightarrow>
      (Short_d \<in> set (options inp) \<or> Long_daemonize \<in> set (options inp))
      \<and> Long_verbose \<notin> set (options inp))
   \<and> (detached (daemonize_step (parse_options (options inp)) (state0 inp)) \<longrightarrow>
        cwd (daemonize_step (parse_options (options inp)) (state0 inp)) = ''/''
        \<and> stdio_null (daemonize_step (parse_options (options inp)) (state0 inp)))
   \<and> (\<not> detached (daemonize_step (parse_options (options inp)) (state0 inp)) \<longrightarrow>
        daemonize_step (parse_options (options inp)) (state0 inp) = state0 inp)"
proof -
  have "daemonize_flag (parse_options (options inp)) = 1 \<and> VERBOSE (parse_options (options inp)) \<noteq> 1
      \<longleftrightarrow> (Short_d \<in> set (options inp) \<or> Long_daemonize \<in> set (options inp))
      \<and> Long_verbose \<notin> set (options inp)"
    by (simp add: parse_options_flags)
  then show ?thesis
    by (simp add: daemonize_step_def daemon_def emit_def state0_def)
qed

theorem daemonize_decision_witness:
  "detached (daemonize_step (parse_options [Long_daemonize]) (state0 (run [Long_daemonize] [])))
   \<and> cwd (daemonize_step (parse_options [Long_daemonize]) (state0 (run [Long_daemonize] []))) = ''/''
   \<and> stdio_null (daemonize_step (parse_options [Long_daemonize]) (state0 (run [Long_daemonize] [])))
   \<and> daemonize_step (parse_options [Short_d, Long_verbose]) (state0 (run [Short_d, Long_verbose] []))
       = state0 (run [Short_d, Long_verbose] [])
   \<and> \<not> detached (state0 (run [Short_d, Long_verbose] []))"
proof -
  have o: "options (run hits []) = hits" for hits by (simp add: run_def)
  have d: "\<not> detached (state0 (run [Short_d, Long_verbose] []))" by (simp add: state0_def)
  from daemonize_decision [of "run [Long_daemonize] []"]
    daemonize_decision [of "run [Short_d, Long_verbose] []"] d
  show ?thesis by (simp add: o)
qed

end
